theory Spec2Isabelle
  imports Complex_Main "HOL-Library.Word"
begin

unbundle bit_operations_syntax

section \<open>DuoReport: rooms, documents and the synchronisation protocol\<close>

text \<open>
  A shallow embedding of \<^verbatim>\<open>main.py\<close>: the connection manager, the room-creation
  endpoint, the websocket endpoint and the keep-alive loop. Every handler is a function
  from the server state to the actions it performs on websockets and the new state.
  The handler of one websocket is cut at its \<^verbatim>\<open>receive_json\<close> calls: what it does
  between two receives is one step, run without interleaving. A read can fail; a
  \<^verbatim>\<open>send_json\<close> and, when \<^verbatim>\<open>redis_client\<close> is not \<^verbatim>\<open>None\<close>, a Redis command are
  taken to succeed. Clock readings and the UUID drawn are arguments of the step that
  uses them.
\<close>

subsection \<open>JSON values as Python sees them\<close>

text \<open>
  What \<^verbatim>\<open>json.loads\<close> returns. Numbers are integers here; an object keeps its
  pairs in textual order, and a key written twice has the value written last.
\<close>

datatype json =
    JNull
  | JBool bool
  | JNum int
  | JStr string
  | JArr "json list"
  | JObj "(string \<times> json) list"

text \<open>Python truth of a value, as \<^verbatim>\<open>if section:\<close> tests it.\<close>

fun truthy :: "json \<Rightarrow> bool" where
  "truthy JNull = False"
| "truthy (JBool b) = b"
| "truthy (JNum n) = (n \<noteq> 0)"
| "truthy (JStr s) = (s \<noteq> [])"
| "truthy (JArr xs) = (xs \<noteq> [])"
| "truthy (JObj kvs) = (kvs \<noteq> [])"

text \<open>\<^verbatim>\<open>d.get(k, default)\<close> on a parsed object.\<close>

definition dict_get :: "(string \<times> json) list \<Rightarrow> string \<Rightarrow> json \<Rightarrow> json" where
  "dict_get kvs k dflt = (case map_of (rev kvs) k of None \<Rightarrow> dflt | Some v \<Rightarrow> v)"

text \<open>\<^verbatim>\<open>d[k] = v\<close> on a dictionary with string keys: an existing key keeps its place.\<close>

fun dict_set :: "string \<Rightarrow> json \<Rightarrow> (string \<times> json) list \<Rightarrow> (string \<times> json) list" where
  "dict_set k v [] = [(k, v)]"
| "dict_set k v ((k', v') # kvs) =
     (if k' = k then (k, v) # kvs else (k', v') # dict_set k v kvs)"

text \<open>Decimal text of an integer, \<^verbatim>\<open>str(n)\<close>.\<close>

fun str_nat :: "nat \<Rightarrow> string" where
  "str_nat n =
     (if n < 10 then [char_of (48 + n)]
      else str_nat (n div 10) @ [char_of (48 + n mod 10)])"

declare str_nat.simps [simp del]

definition str_int :: "int \<Rightarrow> string" where
  "str_int i = (if i < 0 then CHR ''-'' # str_nat (nat (- i)) else str_nat (nat i))"

text \<open>
  The key under which \<^verbatim>\<open>sections[section] = content\<close> is found after the document
  went through \<^verbatim>\<open>json.dumps\<close> and \<^verbatim>\<open>json.loads\<close>: a string is itself, a number, a
  boolean or \<^verbatim>\<open>None\<close> is written as its JSON text, and a list or an object is
  unhashable (\<^verbatim>\<open>TypeError\<close>).
\<close>

fun section_key :: "json \<Rightarrow> string option" where
  "section_key (JStr s) = Some s"
| "section_key (JNum n) = Some (str_int n)"
| "section_key (JBool b) = Some (if b then ''true'' else ''false'')"
| "section_key JNull = Some ''null''"
| "section_key (JArr xs) = None"
| "section_key (JObj kvs) = None"

subsection \<open>Documents and the store\<close>

definition TEMPLATE_SECTIONS :: "(string \<times> json) list" where
  "TEMPLATE_SECTIONS =
     [(''abstract'', JStr []), (''introduction'', JStr []), (''methodology'', JStr []),
      (''results'', JStr []), (''conclusion'', JStr []), (''references'', JStr [])]"

text \<open>
  The dictionary written to Redis. \<^verbatim>\<open>created_at\<close> is optional because one of the two
  places that build a document leaves it out.
\<close>

record document =
  sections :: "(string \<times> json) list"
  cursors :: "(string \<times> json) list"
  last_active :: real
  created_at :: "real option"

text \<open>
  The Redis database: each key holds the document last written and the expiry, in
  seconds, given to \<^verbatim>\<open>setex\<close>. \<^verbatim>\<open>redis_client\<close> is \<^verbatim>\<open>None\<close> when the start-up
  connection failed.
\<close>

type_synonym store = "string \<rightharpoonup> (document \<times> nat)"

definition redis_get :: "store \<Rightarrow> string \<Rightarrow> document option" where
  "redis_get st k = map_option fst (st k)"

definition setex :: "store \<Rightarrow> string \<Rightarrow> nat \<Rightarrow> document \<Rightarrow> store" where
  "setex st k ttl d = st(k \<mapsto> (d, ttl))"

definition doc_key :: "string \<Rightarrow> string" where
  "doc_key room_id = ''report:'' @ room_id"

subsection \<open>The connection manager\<close>

type_synonym ws = nat

record connection =
  websocket :: ws
  username :: json
  connected_at :: real

record server =
  active_connections :: "string \<rightharpoonup> connection list"
  auto_save_tasks :: "string set"
  redis_client :: "store option"

datatype message =
    ErrorMsg string
  | InitMsg document json "json list"
  | UserJoined json "json list"
  | UserLeft json "json list"
  | EditMsg json json json json
  | CursorMsg json json json

datatype action = Accept ws | SendJson ws message | Close ws

definition get_users :: "server \<Rightarrow> string \<Rightarrow> json list" where
  "get_users s room_id =
     (case active_connections s room_id of
        Some cs \<Rightarrow> map username cs
      | None \<Rightarrow> [])"

text \<open>
  \<^verbatim>\<open>broadcast\<close>: one \<^verbatim>\<open>send_json\<close> per connection of the room other than
  \<^verbatim>\<open>exclude\<close>, in registry order; a send that fails is caught and the loop goes on.
\<close>

definition broadcast :: "server \<Rightarrow> string \<Rightarrow> message \<Rightarrow> ws option \<Rightarrow> action list" where
  "broadcast s room_id m exclude =
     (case active_connections s room_id of
        None \<Rightarrow> []
      | Some cs \<Rightarrow>
          map (\<lambda>c. SendJson (websocket c) m)
            (filter (\<lambda>c. Some (websocket c) \<noteq> exclude) cs))"

definition disconnect :: "ws \<Rightarrow> string \<Rightarrow> server \<Rightarrow> server" where
  "disconnect w room_id s =
     (case active_connections s room_id of
        None \<Rightarrow> s
      | Some cs \<Rightarrow>
          (let cs' = filter (\<lambda>c. websocket c \<noteq> w) cs in
           if length cs' = 0
           then s\<lparr>active_connections := (active_connections s)(room_id := None),
                   auto_save_tasks := auto_save_tasks s - {room_id}\<rparr>
           else s\<lparr>active_connections := (active_connections s)(room_id \<mapsto> cs')\<rparr>))"

text \<open>One iteration of \<^verbatim>\<open>auto_save_loop\<close>, after its five seconds of sleep.\<close>

definition auto_save_iter :: "string \<Rightarrow> real \<Rightarrow> server \<Rightarrow> server" where
  "auto_save_iter room_id now s =
     (case redis_client s of
        None \<Rightarrow> s
      | Some st \<Rightarrow>
          (case redis_get st (doc_key room_id) of
             None \<Rightarrow> s
           | Some d \<Rightarrow>
               s\<lparr>redis_client :=
                    Some (setex st (doc_key room_id) 3600 (d\<lparr>last_active := now\<rparr>))\<rparr>))"

subsection \<open>Room creation\<close>

text \<open>
  \<^verbatim>\<open>str(uuid.uuid4())\<close>: the 128 random bits as 32 lower-case hexadecimal digits,
  grouped 8-4-4-4-12.
\<close>

definition hexdigit :: "nat \<Rightarrow> char" where
  "hexdigit n = ''0123456789abcdef'' ! n"

definition hex32 :: "128 word \<Rightarrow> string" where
  "hex32 u = map (\<lambda>i. hexdigit (unat (drop_bit (4 * i) u AND 15))) (rev [0..<32])"

definition str_uuid :: "128 word \<Rightarrow> string" where
  "str_uuid u =
     (let h = hex32 u in
      take 8 h @ ''-'' @ take 4 (drop 8 h) @ ''-'' @ take 4 (drop 12 h) @ ''-'' @
      take 4 (drop 16 h) @ ''-'' @ drop 20 h)"

datatype http_error = HTTPException nat string

text \<open>
  \<^verbatim>\<open>create_room\<close>; \<open>u\<close> is the UUID drawn, \<open>t1\<close> and \<open>t2\<close> the two readings of the
  clock. The result is the \<^verbatim>\<open>room_id\<close> of the response and the new state.
\<close>

definition create_room ::
  "128 word \<Rightarrow> real \<Rightarrow> real \<Rightarrow> server \<Rightarrow> http_error + (string \<times> server)" where
  "create_room u t1 t2 s =
     (case redis_client s of
        None \<Rightarrow> Inl (HTTPException 503 ''Redis not available'')
      | Some st \<Rightarrow>
          (let room_id = take 8 (str_uuid u);
               doc_data = \<lparr>sections = TEMPLATE_SECTIONS, cursors = [],
                           last_active = t1, created_at = Some t2\<rparr>
           in Inr (room_id,
                   s\<lparr>redis_client := Some (setex st (doc_key room_id) 3600 doc_data)\<rparr>)))"

subsection \<open>The websocket endpoint\<close>

text \<open>
  What a \<^verbatim>\<open>receive_json\<close> gives: a parsed message, the peer's disconnection
  (\<^verbatim>\<open>WebSocketDisconnect\<close>), or any other failure of the read (a frame that is not
  JSON text, a transport error).
\<close>

datatype recv = Msg json | Disconnected | Failure

datatype exn = WebSocketDisconnect | Exception

text \<open>
  Lines 222-227: the first message. Any exception, \<^verbatim>\<open>.get\<close> on a value that is not
  an object included, is caught by the bare \<^verbatim>\<open>except\<close>.
\<close>

definition read_username :: "recv \<Rightarrow> json option" where
  "read_username rc =
     (case rc of
        Msg (JObj kvs) \<Rightarrow> Some (dict_get kvs ''username'' (JStr ''Anonymous''))
      | _ \<Rightarrow> None)"

text \<open>Lines 257-270: load the document, or create it when the key is absent.\<close>

definition load_document :: "store \<Rightarrow> string \<Rightarrow> real \<Rightarrow> document \<times> store" where
  "load_document st room_id now =
     (case redis_get st (doc_key room_id) of
        Some d \<Rightarrow> (d, st)
      | None \<Rightarrow>
          (let d = \<lparr>sections = TEMPLATE_SECTIONS, cursors = [],
                    last_active = now, created_at = None\<rparr>
           in (d, setex st (doc_key room_id) 3600 d)))"

definition room_full_text :: string where
  "room_full_text = ''Room is full. Only 2 users allowed per room.''"

text \<open>
  Lines 229-285 of \<^verbatim>\<open>websocket_endpoint\<close>: the capacity check and the registration it
  does itself (it does not call \<^verbatim>\<open>ConnectionManager.connect\<close>), then the initial
  state. The result says whether the handler goes on to its message loop.
\<close>

definition admit ::
  "ws \<Rightarrow> string \<Rightarrow> json \<Rightarrow> real \<Rightarrow> real \<Rightarrow> server \<Rightarrow> action list \<times> server \<times> bool" where
  "admit w room_id u t1 t2 s =
     (if (case active_connections s room_id of
            Some cs \<Rightarrow> length cs \<ge> 2
          | None \<Rightarrow> False)
      then ([SendJson w (ErrorMsg room_full_text), Close w], s, False)
      else
        (let cs = (case active_connections s room_id of Some cs \<Rightarrow> cs | None \<Rightarrow> []);
             connection_info = \<lparr>websocket = w, username = u, connected_at = t1\<rparr>;
             s1 = s\<lparr>active_connections :=
                       (active_connections s)(room_id \<mapsto> cs @ [connection_info]),
                     auto_save_tasks := insert room_id (auto_save_tasks s)\<rparr>
         in case redis_client s1 of
              None \<Rightarrow> ([], s1, True)
            | Some st \<Rightarrow>
                (let (d, st') = load_document st room_id t2;
                     s2 = s1\<lparr>redis_client := Some st'\<rparr>
                 in (SendJson w (InitMsg d u (get_users s2 room_id)) #
                     broadcast s2 room_id (UserJoined u (get_users s2 room_id)) (Some w),
                     s2, True))))"

definition websocket_open ::
  "ws \<Rightarrow> string \<Rightarrow> recv \<Rightarrow> real \<Rightarrow> real \<Rightarrow> server \<Rightarrow> action list \<times> server \<times> bool" where
  "websocket_open w room_id rc t1 t2 s =
     (case read_username rc of
        None \<Rightarrow> ([Accept w, Close w], s, False)
      | Some u \<Rightarrow>
          (case admit w room_id u t1 t2 s of
             (acts, s', active) \<Rightarrow> (Accept w # acts, s', active)))"

text \<open>Lines 298-306: the document is updated only when the key is in the store.\<close>

definition persist_edit ::
  "store \<Rightarrow> string \<Rightarrow> json \<Rightarrow> json \<Rightarrow> real \<Rightarrow> exn + store" where
  "persist_edit st k section content now =
     (case redis_get st k of
        None \<Rightarrow> Inr st
      | Some d \<Rightarrow>
          (if content \<noteq> JNull
           then (case section_key section of
                   None \<Rightarrow> Inl Exception
                 | Some key \<Rightarrow>
                     Inr (setex st k 3600
                            (d\<lparr>sections := dict_set key content (sections d),
                               last_active := now\<rparr>)))
           else Inr (setex st k 3600 (d\<lparr>last_active := now\<rparr>))))"

text \<open>Lines 289-328: one message of the loop.\<close>

definition handle_message ::
  "ws \<Rightarrow> string \<Rightarrow> json \<Rightarrow> json \<Rightarrow> real \<Rightarrow> server \<Rightarrow> exn + (action list \<times> server)" where
  "handle_message w room_id u data now s =
     (case data of
        JObj kvs \<Rightarrow>
          (let message_type = dict_get kvs ''type'' JNull in
           if message_type = JStr ''edit'' then
             (let section = dict_get kvs ''section'' JNull;
                  delta = dict_get kvs ''delta'' JNull;
                  content = dict_get kvs ''content'' JNull
              in case redis_client s of
                   None \<Rightarrow> Inr ([], s)
                 | Some st \<Rightarrow>
                     (if truthy section then
                        (case persist_edit st (doc_key room_id) section content now of
                           Inl e \<Rightarrow> Inl e
                         | Inr st' \<Rightarrow>
                             (let s' = s\<lparr>redis_client := Some st'\<rparr>
                              in Inr (broadcast s' room_id
                                        (EditMsg section delta content u) (Some w), s')))
                      else Inr ([], s)))
           else if message_type = JStr ''cursor'' then
             (let section = dict_get kvs ''section'' JNull;
                  position = dict_get kvs ''position'' JNull
              in Inr (broadcast s room_id (CursorMsg section position u) (Some w), s))
           else Inr ([], s))
      | _ \<Rightarrow> Inl Exception)"

text \<open>
  One turn of the loop with the two handlers of lines 330-339. The result says whether
  the loop goes on.
\<close>

definition session_step ::
  "ws \<Rightarrow> string \<Rightarrow> json \<Rightarrow> recv \<Rightarrow> real \<Rightarrow> server \<Rightarrow> action list \<times> server \<times> bool" where
  "session_step w room_id u rc now s =
     (case (case rc of
              Msg data \<Rightarrow> handle_message w room_id u data now s
            | Disconnected \<Rightarrow> Inl WebSocketDisconnect
            | Failure \<Rightarrow> Inl Exception) of
        Inr (acts, s') \<Rightarrow> (acts, s', True)
      | Inl WebSocketDisconnect \<Rightarrow>
          (let s' = disconnect w room_id s
           in (broadcast s' room_id (UserLeft u (get_users s' room_id)) None, s', False))
      | Inl Exception \<Rightarrow> ([], disconnect w room_id s, False))"

subsection \<open>The server as a transition system\<close>

text \<open>
  The events the server reacts to. \<open>Expire\<close> is Redis dropping a key whose expiry has
  run out; \<open>KeepAlive\<close> is an iteration of a room's keep-alive task, which exists as
  long as the room is in \<^verbatim>\<open>auto_save_tasks\<close>.
\<close>

datatype event =
    CreateRoom "128 word" real real
  | Open ws string recv real real
  | Receive ws string json recv real
  | KeepAlive string real
  | Expire string

fun step :: "event \<Rightarrow> server \<Rightarrow> action list \<times> server" where
  "step (CreateRoom u t1 t2) s =
     (case create_room u t1 t2 s of Inl e \<Rightarrow> ([], s) | Inr (room_id, s') \<Rightarrow> ([], s'))"
| "step (Open w room_id rc t1 t2) s =
     (case websocket_open w room_id rc t1 t2 s of (acts, s', active) \<Rightarrow> (acts, s'))"
| "step (Receive w room_id u rc now) s =
     (case session_step w room_id u rc now s of (acts, s', active) \<Rightarrow> (acts, s'))"
| "step (KeepAlive room_id now) s =
     ([], if room_id \<in> auto_save_tasks s then auto_save_iter room_id now s else s)"
| "step (Expire k) s =
     ([], case redis_client s of
            None \<Rightarrow> s
          | Some st \<Rightarrow> s\<lparr>redis_client := Some (st(k := None))\<rparr>)"

fun run :: "event list \<Rightarrow> server \<Rightarrow> server" where
  "run [] s = s"
| "run (e # es) s = run es (snd (step e s))"

definition startup :: "store option \<Rightarrow> server" where
  "startup rc = \<lparr>active_connections = Map.empty, auto_save_tasks = {}, redis_client = rc\<rparr>"

subsection \<open>Invariants and a scenario\<close>

text \<open>No room of the registry holds more than two connections.\<close>

definition room_capacity_ok :: "server \<Rightarrow> bool" where
  "room_capacity_ok s =
     (\<forall>room_id cs. active_connections s room_id = Some cs \<longrightarrow> length cs \<le> 2)"




text \<open>The connections of a room, none when the room is not in the registry.\<close>

definition room_connections :: "server \<Rightarrow> string \<Rightarrow> connection list" where
  "room_connections s room_id =
     (case active_connections s room_id of Some cs \<Rightarrow> cs | None \<Rightarrow> [])"

text \<open>A JSON object, the only kind of value that has \<^verbatim>\<open>.get\<close>.\<close>

fun is_object :: "json \<Rightarrow> bool" where
  "is_object (JObj kvs) = True"
| "is_object _ = False"

text \<open>
  Alice, then Bob, join room \<open>r\<close> of a server that has just started: the first half of
  the end-to-end scenario.
\<close>

definition two_users :: "store option \<Rightarrow> server" where
  "two_users rc =
     run [Open 1 ''r'' (Msg (JObj [(''username'', JStr ''Alice'')])) 0 0,
          Open 2 ''r'' (Msg (JObj [(''username'', JStr ''Bob'')])) 1 1] (startup rc)"

section \<open>Properties\<close>

subsection \<open>The scenario, evaluated\<close>

lemma two_users_None:
  "two_users None =
     \<lparr>active_connections =
        [''r'' \<mapsto> [\<lparr>websocket = 1, username = JStr ''Alice'', connected_at = 0\<rparr>,
                     \<lparr>websocket = 2, username = JStr ''Bob'', connected_at = 1\<rparr>]],
      auto_save_tasks = {''r''}, redis_client = None\<rparr>"
  by (simp add: two_users_def startup_def websocket_open_def read_username_def dict_get_def
      admit_def)

lemma two_users_Some:
  "two_users (Some Map.empty) =
     \<lparr>active_connections =
        [''r'' \<mapsto> [\<lparr>websocket = 1, username = JStr ''Alice'', connected_at = 0\<rparr>,
                     \<lparr>websocket = 2, username = JStr ''Bob'', connected_at = 1\<rparr>]],
      auto_save_tasks = {''r''},
      redis_client = Some [''report:r'' \<mapsto>
        (\<lparr>sections = TEMPLATE_SECTIONS, cursors = [], last_active = 0,
          created_at = None\<rparr>, 3600)]\<rparr>"
  by (simp add: two_users_def startup_def websocket_open_def read_username_def dict_get_def
      admit_def load_document_def redis_get_def setex_def doc_key_def Let_def)

subsection \<open>Dictionaries and broadcasts\<close>

lemma dict_get_absent: "k \<notin> fst ` set kvs \<Longrightarrow> dict_get kvs k dflt = dflt"
proof -
  assume "k \<notin> fst ` set kvs"
  then have "map_of (rev kvs) k = None" by (simp add: map_of_eq_None_iff)
  then show ?thesis by (simp add: dict_get_def)
qed



lemma broadcast_others:
  "broadcast s room_id m (Some w) =
     map (\<lambda>c. SendJson (websocket c) m)
       (filter (\<lambda>c. websocket c \<noteq> w) (room_connections s room_id))"
  by (simp add: broadcast_def room_connections_def split: option.splits)


lemma room_id_zero: "take 8 (str_uuid 0) = ''00000000''"
  by (simp add: str_uuid_def hex32_def Let_def hexdigit_def upt_rec)

subsection \<open>Room capacity\<close>

lemma handle_message_registry:
  "handle_message w room_id u data now s = Inr (acts, s') \<Longrightarrow>
   active_connections s' = active_connections s \<and> auto_save_tasks s' = auto_save_tasks s"
  by (auto simp: handle_message_def Let_def
      split: json.splits option.splits if_splits sum.splits)

lemma disconnect_capacity:
  "room_capacity_ok s \<Longrightarrow> room_capacity_ok (disconnect w room_id s)"
proof -
  assume ok: "room_capacity_ok s"
  show ?thesis
  proof (cases "active_connections s room_id")
    case None
    with ok show ?thesis by (simp add: disconnect_def)
  next
    case (Some cs)
    have "length (filter (\<lambda>c. websocket c \<noteq> w) cs) \<le> length cs" by simp
    moreover from ok Some have "length cs \<le> 2" by (simp add: room_capacity_ok_def)
    ultimately have "length (filter (\<lambda>c. websocket c \<noteq> w) cs) \<le> 2" by linarith
    with ok Some show ?thesis
      by (auto simp: disconnect_def room_capacity_ok_def Let_def)
  qed
qed

lemma admit_capacity:
  "room_capacity_ok s \<Longrightarrow> room_capacity_ok (fst (snd (admit w room_id u t1 t2 s)))"
  by (auto simp: admit_def room_capacity_ok_def Let_def
      split: option.splits prod.splits if_splits)

lemma session_step_capacity:
  "room_capacity_ok s \<Longrightarrow> room_capacity_ok (fst (snd (session_step w room_id u rc now s)))"
proof (cases rc)
  case (Msg data)
  assume ok: "room_capacity_ok s"
  show ?thesis
  proof (cases "handle_message w room_id u data now s")
    case (Inl e)
    with Msg ok show ?thesis
      by (cases e) (simp_all add: session_step_def disconnect_capacity Let_def)
  next
    case (Inr p)
    obtain acts s' where p: "p = (acts, s')" by (cases p)
    from handle_message_registry[OF Inr[unfolded p]] ok
    have "room_capacity_ok s'" by (simp add: room_capacity_ok_def)
    with Msg Inr p show ?thesis by (simp add: session_step_def)
  qed
next
  case Disconnected
  assume "room_capacity_ok s"
  with Disconnected show ?thesis
    by (simp add: session_step_def disconnect_capacity Let_def)
next
  case Failure
  assume "room_capacity_ok s"
  with Failure show ?thesis
    by (simp add: session_step_def disconnect_capacity)
qed

lemma step_capacity:
  "room_capacity_ok s \<Longrightarrow> room_capacity_ok (snd (step e s))"
proof (cases e)
  case (CreateRoom u t1 t2)
  assume "room_capacity_ok s"
  with CreateRoom show ?thesis
    by (auto simp: create_room_def room_capacity_ok_def Let_def split: option.splits)
next
  case (Open w room_id rc t1 t2)
  assume ok: "room_capacity_ok s"
  show ?thesis
  proof (cases "read_username rc")
    case None
    with Open ok show ?thesis by (simp add: websocket_open_def)
  next
    case (Some u)
    with Open admit_capacity[OF ok, of w room_id u t1 t2] show ?thesis
      by (cases "admit w room_id u t1 t2 s") (simp add: websocket_open_def)
  qed
next
  case (Receive w room_id u rc now)
  assume ok: "room_capacity_ok s"
  with Receive session_step_capacity[OF ok, of w room_id u rc now] show ?thesis
    by (cases "session_step w room_id u rc now s") simp
next
  case (KeepAlive room_id now)
  assume "room_capacity_ok s"
  with KeepAlive show ?thesis
    by (auto simp: auto_save_iter_def room_capacity_ok_def split: option.splits)
next
  case (Expire k)
  assume "room_capacity_ok s"
  with Expire show ?thesis
    by (auto simp: room_capacity_ok_def split: option.splits)
qed

lemma run_capacity:
  "room_capacity_ok s \<Longrightarrow> room_capacity_ok (run evs s)"
  by (induction evs arbitrary: s) (simp_all add: step_capacity)

text \<open>
  C1. Whatever the server has been through since start-up, no room holds more than two
  connections. A connection that asks to join a room holding two is sent the
  \<^verbatim>\<open>error\<close> message and closed, and the server state, the room's connection list
  included, is what it was.
\<close>

theorem room_never_exceeds_two:
  "room_capacity_ok (run evs (startup rc)) \<and>
   (active_connections s room_id = Some cs \<and> length cs \<ge> 2 \<longrightarrow>
      websocket_open w room_id (Msg (JObj kvs)) t1 t2 s =
        ([Accept w, SendJson w (ErrorMsg room_full_text), Close w], s, False))"
proof
  have "room_capacity_ok (startup rc)"
    by (simp add: room_capacity_ok_def startup_def)
  then show "room_capacity_ok (run evs (startup rc))" by (rule run_capacity)
next
  show "active_connections s room_id = Some cs \<and> length cs \<ge> 2 \<longrightarrow>
      websocket_open w room_id (Msg (JObj kvs)) t1 t2 s =
        ([Accept w, SendJson w (ErrorMsg room_full_text), Close w], s, False)"
    by (simp add: websocket_open_def read_username_def admit_def)
qed

theorem room_never_exceeds_two_witness:
  "room_capacity_ok
     (run [Open 1 ''r'' (Msg (JObj [(''username'', JStr ''Alice'')])) 0 0,
           Open 2 ''r'' (Msg (JObj [(''username'', JStr ''Bob'')])) 1 1,
           Open 3 ''r'' (Msg (JObj [(''username'', JStr ''Carol'')])) 2 2] (startup None)) \<and>
   websocket_open 3 ''r'' (Msg (JObj [(''username'', JStr ''Carol'')])) 2 2 (two_users None) =
     ([Accept 3, SendJson 3 (ErrorMsg room_full_text), Close 3], two_users None, False)"
  using room_never_exceeds_two
    [where evs = "[Open 1 ''r'' (Msg (JObj [(''username'', JStr ''Alice'')])) 0 0,
           Open 2 ''r'' (Msg (JObj [(''username'', JStr ''Bob'')])) 1 1,
           Open 3 ''r'' (Msg (JObj [(''username'', JStr ''Carol'')])) 2 2]"
       and rc = None and s = "two_users None" and room_id = "''r''"
       and cs = "[\<lparr>websocket = 1, username = JStr ''Alice'', connected_at = 0\<rparr>,
                  \<lparr>websocket = 2, username = JStr ''Bob'', connected_at = 1\<rparr>]"
       and w = 3 and kvs = "[(''username'', JStr ''Carol'')]" and ?t1.0 = 2 and ?t2.0 = 2]
  by (simp add: two_users_None)

subsection \<open>The handshake\<close>

text \<open>
  C7. When the first read ends in a disconnection or any other failure, or gives a value
  that is not an object, the handler accepts, closes and sends nothing else, and the
  server state (the registry included) is unchanged. When the first message is an object
  with no \<^verbatim>\<open>username\<close> key, the handler goes on exactly as for the username
  \<^verbatim>\<open>"Anonymous"\<close>; in a room with fewer than two connections that connection is
  appended under this name and the message loop is entered.
\<close>

theorem handshake_outcomes:
  "((rc = Disconnected \<or> rc = Failure \<or> (\<exists>j. rc = Msg j \<and> \<not> is_object j)) \<longrightarrow>
      websocket_open w room_id rc t1 t2 s = ([Accept w, Close w], s, False)) \<and>
   (''username'' \<notin> fst ` set kvs \<longrightarrow>
      websocket_open w room_id (Msg (JObj kvs)) t1 t2 s =
        (case admit w room_id (JStr ''Anonymous'') t1 t2 s of
           (acts, s', active) \<Rightarrow> (Accept w # acts, s', active))) \<and>
   (''username'' \<notin> fst ` set kvs \<and>
    (\<forall>cs. active_connections s room_id = Some cs \<longrightarrow> length cs < 2) \<longrightarrow>
      (case websocket_open w room_id (Msg (JObj kvs)) t1 t2 s of
         (acts, s', active) \<Rightarrow>
           active \<and>
           active_connections s' room_id =
             Some ((case active_connections s room_id of Some cs \<Rightarrow> cs | None \<Rightarrow> []) @
                   [\<lparr>websocket = w, username = JStr ''Anonymous'', connected_at = t1\<rparr>])))"
proof (intro conjI impI)
  assume "rc = Disconnected \<or> rc = Failure \<or> (\<exists>j. rc = Msg j \<and> \<not> is_object j)"
  then have "read_username rc = None"
  proof (elim disjE exE conjE)
    fix j assume "rc = Msg j" "\<not> is_object j"
    then show ?thesis by (cases j) (simp_all add: read_username_def)
  qed (simp_all add: read_username_def)
  then show "websocket_open w room_id rc t1 t2 s = ([Accept w, Close w], s, False)"
    by (simp add: websocket_open_def)
next
  assume "''username'' \<notin> fst ` set kvs"
  then have "read_username (Msg (JObj kvs)) = Some (JStr ''Anonymous'')"
    by (simp add: read_username_def dict_get_absent)
  then show "websocket_open w room_id (Msg (JObj kvs)) t1 t2 s =
        (case admit w room_id (JStr ''Anonymous'') t1 t2 s of
           (acts, s', active) \<Rightarrow> (Accept w # acts, s', active))"
    by (simp add: websocket_open_def)
next
  assume a: "''username'' \<notin> fst ` set kvs \<and>
    (\<forall>cs. active_connections s room_id = Some cs \<longrightarrow> length cs < 2)"
  then have u: "read_username (Msg (JObj kvs)) = Some (JStr ''Anonymous'')"
    by (simp add: read_username_def dict_get_absent)
  from a have nf: "\<not> (case active_connections s room_id of
            Some cs \<Rightarrow> length cs \<ge> 2 | None \<Rightarrow> False)"
    by (auto split: option.splits)
  show "case websocket_open w room_id (Msg (JObj kvs)) t1 t2 s of
         (acts, s', active) \<Rightarrow>
           active \<and>
           active_connections s' room_id =
             Some ((case active_connections s room_id of Some cs \<Rightarrow> cs | None \<Rightarrow> []) @
                   [\<lparr>websocket = w, username = JStr ''Anonymous'', connected_at = t1\<rparr>])"
    using u nf
    by (auto simp: websocket_open_def admit_def Let_def split: option.splits prod.splits)
qed

text \<open>
  The three cases at work: a failed read and a JSON array on a full room, and an empty
  object on a fresh server.
\<close>

theorem handshake_outcomes_witness:
  "websocket_open 3 ''r'' Failure 0 0 (two_users None) =
     ([Accept 3, Close 3], two_users None, False) \<and>
   websocket_open 3 ''r'' (Msg (JArr [])) 0 0 (two_users None) =
     ([Accept 3, Close 3], two_users None, False) \<and>
   websocket_open 1 ''r'' (Msg (JObj [])) 5 6 (startup None) =
     ([Accept 1],
      \<lparr>active_connections =
         [''r'' \<mapsto> [\<lparr>websocket = 1, username = JStr ''Anonymous'', connected_at = 5\<rparr>]],
       auto_save_tasks = {''r''}, redis_client = None\<rparr>, True)"
proof -
  have a: "websocket_open 3 ''r'' Failure 0 0 (two_users None) =
     ([Accept 3, Close 3], two_users None, False)"
    using handshake_outcomes
      [where rc = Failure and w = 3 and room_id = "''r''" and s = "two_users None"
         and kvs = "[]" and ?t1.0 = 0 and ?t2.0 = 0]
    by simp
  have b: "websocket_open 3 ''r'' (Msg (JArr [])) 0 0 (two_users None) =
     ([Accept 3, Close 3], two_users None, False)"
    using handshake_outcomes
      [where rc = "Msg (JArr [])" and w = 3 and room_id = "''r''" and s = "two_users None"
         and kvs = "[]" and ?t1.0 = 0 and ?t2.0 = 0]
    by simp
  have c: "websocket_open 1 ''r'' (Msg (JObj [])) 5 6 (startup None) =
     ([Accept 1],
      \<lparr>active_connections =
         [''r'' \<mapsto> [\<lparr>websocket = 1, username = JStr ''Anonymous'', connected_at = 5\<rparr>]],
       auto_save_tasks = {''r''}, redis_client = None\<rparr>, True)"
    using handshake_outcomes
      [where rc = "Msg (JObj [])" and w = 1 and room_id = "''r''" and s = "startup None"
         and kvs = "[]" and ?t1.0 = 5 and ?t2.0 = 6]
    by (simp add: admit_def startup_def)
  from a b c show ?thesis by simp
qed

subsection \<open>Loading and creating documents\<close>

text \<open>
  C8. Loading the document of a room whose key is absent writes a document with the six
  sections empty, under an expiry of 3600 seconds; loading it again, at any later clock
  reading, returns that same document and leaves the store as it is. More generally a
  document that is found is returned as stored and nothing is written, also when the
  load happens inside an admission.
\<close>

theorem load_document_idempotent:
  "(redis_get st (doc_key room_id) = None \<longrightarrow>
      (case load_document st room_id now of
         (d, st') \<Rightarrow>
           sections d =
             [(''abstract'', JStr ''''), (''introduction'', JStr ''''),
              (''methodology'', JStr ''''), (''results'', JStr ''''),
              (''conclusion'', JStr ''''), (''references'', JStr '''')] \<and>
           st' = st(doc_key room_id \<mapsto> (d, 3600)) \<and>
           load_document st' room_id now' = (d, st'))) \<and>
   (redis_get st (doc_key room_id) = Some d0 \<longrightarrow>
      load_document st room_id now = (d0, st) \<and>
      (redis_client s = Some st \<longrightarrow>
         redis_client (fst (snd (admit w room_id u t1 t2 s))) = Some st))"
  by (auto simp: load_document_def redis_get_def setex_def TEMPLATE_SECTIONS_def Let_def
      admit_def split: option.splits)

theorem load_document_idempotent_witness:
  "load_document Map.empty ''r'' 0 =
     (\<lparr>sections = TEMPLATE_SECTIONS, cursors = [], last_active = 0, created_at = None\<rparr>,
      [''report:r'' \<mapsto>
        (\<lparr>sections = TEMPLATE_SECTIONS, cursors = [], last_active = 0, created_at = None\<rparr>,
         3600)]) \<and>
   load_document
     [''report:r'' \<mapsto>
        (\<lparr>sections = TEMPLATE_SECTIONS, cursors = [], last_active = 0, created_at = None\<rparr>,
         3600)] ''r'' 7 =
     (\<lparr>sections = TEMPLATE_SECTIONS, cursors = [], last_active = 0, created_at = None\<rparr>,
      [''report:r'' \<mapsto>
        (\<lparr>sections = TEMPLATE_SECTIONS, cursors = [], last_active = 0, created_at = None\<rparr>,
         3600)])"
  using load_document_idempotent
    [where st = Map.empty and room_id = "''r''" and now = 0 and now' = 7
       and ?d0.0 = "\<lparr>sections = TEMPLATE_SECTIONS, cursors = [], last_active = 0, created_at = None\<rparr>"]
    load_document_idempotent
    [where st = "[''report:r'' \<mapsto>
        (\<lparr>sections = TEMPLATE_SECTIONS, cursors = [], last_active = 0, created_at = None\<rparr>,
         3600)]" and room_id = "''r''" and now = 7
       and ?d0.0 = "\<lparr>sections = TEMPLATE_SECTIONS, cursors = [], last_active = 0, created_at = None\<rparr>"
       and s = "startup (Some [''report:r'' \<mapsto>
        (\<lparr>sections = TEMPLATE_SECTIONS, cursors = [], last_active = 0, created_at = None\<rparr>,
         3600)])"]
  by (simp add: load_document_def redis_get_def setex_def doc_key_def startup_def Let_def)

text \<open>
  C9. With a store client, \<^verbatim>\<open>create_room\<close> answers with a room id of eight
  characters and writes, under \<^verbatim>\<open>"report:" + room_id\<close> and with an expiry of 3600
  seconds, a document whose six sections are empty strings. Nothing else of the state
  changes.
\<close>

theorem create_room_initialises:
  "redis_client s = Some st \<Longrightarrow>
   \<exists>room_id.
     length room_id = 8 \<and>
     create_room u t1 t2 s =
       Inr (room_id,
            s\<lparr>redis_client :=
                 Some (st(''report:'' @ room_id \<mapsto>
                   (\<lparr>sections =
                       [(''abstract'', JStr ''''), (''introduction'', JStr ''''),
                        (''methodology'', JStr ''''), (''results'', JStr ''''),
                        (''conclusion'', JStr ''''), (''references'', JStr '''')],
                     cursors = [], last_active = t1, created_at = Some t2\<rparr>, 3600)))\<rparr>)"
proof -
  assume rc: "redis_client s = Some st"
  have len: "length (take 8 (str_uuid u)) = 8"
    by (simp add: str_uuid_def hex32_def Let_def)
  from rc have "create_room u t1 t2 s =
       Inr (take 8 (str_uuid u),
            s\<lparr>redis_client :=
                 Some (st(''report:'' @ take 8 (str_uuid u) \<mapsto>
                   (\<lparr>sections =
                       [(''abstract'', JStr ''''), (''introduction'', JStr ''''),
                        (''methodology'', JStr ''''), (''results'', JStr ''''),
                        (''conclusion'', JStr ''''), (''references'', JStr '''')],
                     cursors = [], last_active = t1, created_at = Some t2\<rparr>, 3600)))\<rparr>)"
    by (simp add: create_room_def Let_def setex_def doc_key_def TEMPLATE_SECTIONS_def)
  with len show ?thesis by blast
qed

theorem create_room_initialises_witness:
  "redis_client (startup (Some Map.empty)) = Some Map.empty \<and>
   create_room 0 3 4 (startup (Some Map.empty)) =
     Inr (''00000000'',
          \<lparr>active_connections = Map.empty, auto_save_tasks = {},
            redis_client = Some [''report:00000000'' \<mapsto>
              (\<lparr>sections = TEMPLATE_SECTIONS, cursors = [], last_active = 3,
                created_at = Some 4\<rparr>, 3600)]\<rparr>)"
proof -
  have h: "redis_client (startup (Some Map.empty)) = Some Map.empty"
    by (simp add: startup_def)
  from create_room_initialises[OF h, of 0 3 4] obtain room_id where
    "create_room 0 3 4 (startup (Some Map.empty)) =
       Inr (room_id,
            (startup (Some Map.empty))\<lparr>redis_client :=
                 Some (Map.empty(''report:'' @ room_id \<mapsto>
                   (\<lparr>sections =
                       [(''abstract'', JStr ''''), (''introduction'', JStr ''''),
                        (''methodology'', JStr ''''), (''results'', JStr ''''),
                        (''conclusion'', JStr ''''), (''references'', JStr '''')],
                     cursors = [], last_active = 3, created_at = Some 4\<rparr>, 3600)))\<rparr>)"
    by blast
  moreover have "create_room 0 3 4 (startup (Some Map.empty)) =
      Inr (''00000000'', (startup (Some Map.empty))\<lparr>redis_client :=
         Some (setex Map.empty (doc_key ''00000000'') 3600
           \<lparr>sections = TEMPLATE_SECTIONS, cursors = [], last_active = 3,
                created_at = Some 4\<rparr>)\<rparr>)"
    by (simp add: create_room_def startup_def room_id_zero Let_def)
  ultimately show ?thesis using h
    by (simp add: startup_def setex_def doc_key_def TEMPLATE_SECTIONS_def)
qed

subsection \<open>Cursor messages\<close>

text \<open>
  C10. A message of type \<^verbatim>\<open>cursor\<close> is answered by one \<^verbatim>\<open>cursor\<close> message,
  carrying its section and position and the sender's name, to every connection of the
  room except the sender's; the server state, hence every record of the store, is
  unchanged and the loop goes on.
\<close>

theorem cursor_is_relayed_not_stored:
  "dict_get kvs ''type'' JNull = JStr ''cursor'' \<Longrightarrow>
   session_step w room_id u (Msg (JObj kvs)) now s =
     (map (\<lambda>c. SendJson (websocket c)
                 (CursorMsg (dict_get kvs ''section'' JNull)
                    (dict_get kvs ''position'' JNull) u))
        (filter (\<lambda>c. websocket c \<noteq> w) (room_connections s room_id)),
      s, True)"
  by (simp add: session_step_def handle_message_def broadcast_others Let_def)

theorem cursor_is_relayed_not_stored_witness:
  "dict_get [(''type'', JStr ''cursor''), (''section'', JStr ''abstract''),
             (''position'', JNum 4)] ''type'' JNull = JStr ''cursor'' \<and>
   session_step 1 ''r'' (JStr ''Alice'')
     (Msg (JObj [(''type'', JStr ''cursor''), (''section'', JStr ''abstract''),
                 (''position'', JNum 4)])) 2 (two_users (Some Map.empty)) =
     ([SendJson 2 (CursorMsg (JStr ''abstract'') (JNum 4) (JStr ''Alice''))],
      two_users (Some Map.empty), True)"
proof -
  have h: "dict_get [(''type'', JStr ''cursor''), (''section'', JStr ''abstract''),
             (''position'', JNum 4)] ''type'' JNull = JStr ''cursor''"
    by (simp add: dict_get_def)
  from cursor_is_relayed_not_stored[OF h, of 1 "''r''" "JStr ''Alice''" 2 "two_users (Some Map.empty)"]
  show ?thesis using h
    by (simp add: dict_get_def room_connections_def two_users_Some)
qed

subsection \<open>The keys of the sections mapping\<close>

















subsection \<open>Edit messages\<close>




subsection \<open>The keep-alive task\<close>

text \<open>
  C5, as the code has it. An iteration that finds the room's document writes it back
  with \<^verbatim>\<open>last_active\<close> set to the current time and an expiry of 3600 seconds; the
  sections, the cursors and \<^verbatim>\<open>created_at\<close> are those read, and nothing else of the
  state changes.
\<close>

theorem keep_alive_rewrites_last_active:
  "redis_client s = Some st \<Longrightarrow> st (doc_key room_id) = Some (d, ttl) \<Longrightarrow>
   auto_save_iter room_id now s =
     s\<lparr>redis_client := Some (st(doc_key room_id \<mapsto> (d\<lparr>last_active := now\<rparr>, 3600)))\<rparr>"
  by (simp add: auto_save_iter_def redis_get_def setex_def)

theorem keep_alive_rewrites_last_active_witness:
  "auto_save_iter ''r'' 9 (two_users (Some Map.empty)) =
     (two_users (Some Map.empty))\<lparr>redis_client := Some [''report:r'' \<mapsto>
        (\<lparr>sections = TEMPLATE_SECTIONS, cursors = [], last_active = 9,
          created_at = None\<rparr>, 3600)]\<rparr>"
  using keep_alive_rewrites_last_active
    [where s = "two_users (Some Map.empty)" and room_id = "''r''" and now = 9 and ttl = 3600
       and d = "\<lparr>sections = TEMPLATE_SECTIONS, cursors = [], last_active = 0,
                 created_at = None\<rparr>"
       and st = "[''report:r'' \<mapsto>
                   (\<lparr>sections = TEMPLATE_SECTIONS, cursors = [], last_active = 0,
                      created_at = None\<rparr>, 3600)]"]
  by (simp add: two_users_Some doc_key_def)

text \<open>
  C5 as stated fails: the record written at time 9 differs from the record read, whose
  \<^verbatim>\<open>last_active\<close> was 0.
\<close>

theorem keep_alive_changes_record:
  "redis_get (the (redis_client (two_users (Some Map.empty)))) ''report:r'' =
     Some \<lparr>sections = TEMPLATE_SECTIONS, cursors = [], last_active = 0, created_at = None\<rparr> \<and>
   redis_get (the (redis_client (auto_save_iter ''r'' 9 (two_users (Some Map.empty)))))
     ''report:r'' =
     Some \<lparr>sections = TEMPLATE_SECTIONS, cursors = [], last_active = 9, created_at = None\<rparr> \<and>
   redis_get (the (redis_client (auto_save_iter ''r'' 9 (two_users (Some Map.empty)))))
     ''report:r'' \<noteq>
   redis_get (the (redis_client (two_users (Some Map.empty)))) ''report:r''"
  by (simp add: two_users_Some auto_save_iter_def redis_get_def setex_def doc_key_def)

subsection \<open>The end of a session\<close>

text \<open>
  C4. Bob leaves the room he shares with Alice. When his read fails, or gives a value
  that is not an object, the \<^verbatim>\<open>except Exception\<close> handler removes him from the
  registry and sends nothing; when his read ends in a \<^verbatim>\<open>WebSocketDisconnect\<close>, Alice
  is sent \<^verbatim>\<open>user_left\<close>.
\<close>

theorem failure_skips_user_left:
  "session_step 2 ''r'' (JStr ''Bob'') Failure 5 (two_users None) =
     ([],
      \<lparr>active_connections =
         [''r'' \<mapsto> [\<lparr>websocket = 1, username = JStr ''Alice'', connected_at = 0\<rparr>]],
       auto_save_tasks = {''r''}, redis_client = None\<rparr>, False) \<and>
   session_step 2 ''r'' (JStr ''Bob'') (Msg (JArr [])) 5 (two_users None) =
     ([],
      \<lparr>active_connections =
         [''r'' \<mapsto> [\<lparr>websocket = 1, username = JStr ''Alice'', connected_at = 0\<rparr>]],
       auto_save_tasks = {''r''}, redis_client = None\<rparr>, False) \<and>
   session_step 2 ''r'' (JStr ''Bob'') Disconnected 5 (two_users None) =
     ([SendJson 1 (UserLeft (JStr ''Bob'') [JStr ''Alice''])],
      \<lparr>active_connections =
         [''r'' \<mapsto> [\<lparr>websocket = 1, username = JStr ''Alice'', connected_at = 0\<rparr>]],
       auto_save_tasks = {''r''}, redis_client = None\<rparr>, False)"
  by (simp add: session_step_def handle_message_def disconnect_def two_users_None
      broadcast_def get_users_def Let_def)

subsection \<open>Documents created on first connection\<close>

text \<open>
  C6. The first connection to an unseen room writes a document that has no
  \<^verbatim>\<open>created_at\<close>, unlike the one \<^verbatim>\<open>create_room\<close> writes.
\<close>

theorem first_connection_omits_created_at:
  "websocket_open 1 ''r'' (Msg (JObj [(''username'', JStr ''Alice'')])) 0 0
     (startup (Some Map.empty)) =
     ([Accept 1,
       SendJson 1
         (InitMsg \<lparr>sections = TEMPLATE_SECTIONS, cursors = [], last_active = 0,
                    created_at = None\<rparr> (JStr ''Alice'') [JStr ''Alice''])],
      \<lparr>active_connections =
         [''r'' \<mapsto> [\<lparr>websocket = 1, username = JStr ''Alice'', connected_at = 0\<rparr>]],
       auto_save_tasks = {''r''},
       redis_client = Some [''report:r'' \<mapsto>
         (\<lparr>sections = TEMPLATE_SECTIONS, cursors = [], last_active = 0,
           created_at = None\<rparr>, 3600)]\<rparr>, True)"
  by (simp add: startup_def websocket_open_def read_username_def dict_get_def
      admit_def load_document_def redis_get_def setex_def doc_key_def get_users_def
      broadcast_def Let_def)

end
